theory Spec2Isabelle
  imports Main "HOL-Library.Char_ord" "HOL-Library.List_Lexorder" "HOL-Library.AList"
begin

section \<open>Errors\<close>

text \<open>
  A Go \<open>error\<close> is an interface value. The program builds its own errors with
  \<open>errors.New\<close> and \<open>fmt.Errorf\<close> (both carry just a message); the standard
  library hands back errors of its own types. The constructors below are the ones the
  model needs; an error coming from the network may be any of them.
\<close>

datatype error =
    errorString string
  | EscapeError string
  | UnmarshalTypeError string
  | SyntaxError string
  | TransportError string

definition errors_New :: "string \<Rightarrow> error" where
  "errors_New msg = errorString msg"

section \<open>The part of net/url the program uses\<close>

text \<open>
  Go strings are byte sequences; \<open>string\<close> is a list of 8-bit \<open>char\<close>s, and the
  order on \<open>char\<close> is the order of the byte values.
\<close>

definition upperhex :: string where
  "upperhex = ''0123456789ABCDEF''"

definition ishex :: "char \<Rightarrow> bool" where
  "ishex c = ((CHR ''0'' \<le> c \<and> c \<le> CHR ''9'') \<or> (CHR ''a'' \<le> c \<and> c \<le> CHR ''f'')
              \<or> (CHR ''A'' \<le> c \<and> c \<le> CHR ''F''))"

definition unhex :: "char \<Rightarrow> nat" where
  "unhex c =
     (if CHR ''0'' \<le> c \<and> c \<le> CHR ''9'' then of_char c - of_char CHR ''0''
      else if CHR ''a'' \<le> c \<and> c \<le> CHR ''f'' then of_char c - of_char CHR ''a'' + 10
      else if CHR ''A'' \<le> c \<and> c \<le> CHR ''F'' then of_char c - of_char CHR ''A'' + 10
      else 0)"

text \<open>\<open>shouldEscape(c, encodeQueryComponent)\<close>: letters, digits and \<open>- _ . ~\<close> stay,
  every other byte (the reserved characters included) is escaped.\<close>

definition shouldEscape :: "char \<Rightarrow> bool" where
  "shouldEscape c =
     (if (CHR ''a'' \<le> c \<and> c \<le> CHR ''z'') \<or> (CHR ''A'' \<le> c \<and> c \<le> CHR ''Z'')
          \<or> (CHR ''0'' \<le> c \<and> c \<le> CHR ''9'') then False
      else if c = CHR ''-'' \<or> c = CHR ''_'' \<or> c = CHR ''.'' \<or> c = CHR ''~'' then False
      else True)"

text \<open>One byte of \<open>escape(s, encodeQueryComponent)\<close>: a space becomes \<open>+\<close>, an
  escaped byte becomes \<open>%XX\<close> with \<open>upperhex[c>>4]\<close> and \<open>upperhex[c&15]\<close>.\<close>

definition escape_byte :: "char \<Rightarrow> string" where
  "escape_byte c =
     (if c = CHR '' '' then [CHR ''+'']
      else if shouldEscape c
        then [CHR ''%'', upperhex ! (of_char c div 16), upperhex ! (of_char c mod 16)]
      else [c])"

definition QueryEscape :: "string \<Rightarrow> string" where
  "QueryEscape s = concat (map escape_byte s)"

text \<open>\<open>QueryUnescape\<close>: \<open>%XX\<close> needs two hex digits after it, otherwise the call
  fails with an \<open>EscapeError\<close> holding at most three bytes from the \<open>%\<close> on;
  \<open>+\<close> becomes a space.\<close>

fun QueryUnescape :: "string \<Rightarrow> error + string" where
  "QueryUnescape [] = Inr []"
| "QueryUnescape (c # cs) =
     (if c = CHR ''%'' then
        (case cs of
           h1 # h2 # rest \<Rightarrow>
             (if ishex h1 \<and> ishex h2 then
                (case QueryUnescape rest of
                   Inl e \<Rightarrow> Inl e
                 | Inr t \<Rightarrow> Inr (char_of (unhex h1 * 16 + unhex h2) # t))
              else Inl (EscapeError (take 3 (c # cs))))
         | _ \<Rightarrow> Inl (EscapeError (take 3 (c # cs))))
      else
        (case QueryUnescape cs of
           Inl e \<Rightarrow> Inl e
         | Inr t \<Rightarrow> Inr ((if c = CHR ''+'' then CHR '' '' else c) # t)))"

text \<open>\<open>strings.Cut(s, sep)\<close> for a one-byte separator: the text before the first
  separator and the text after it (empty when there is none).\<close>

definition Cut_before :: "string \<Rightarrow> char \<Rightarrow> string" where
  "Cut_before s sep = takeWhile (\<lambda>c. c \<noteq> sep) s"

definition Cut_after :: "string \<Rightarrow> char \<Rightarrow> string" where
  "Cut_after s sep = drop 1 (dropWhile (\<lambda>c. c \<noteq> sep) s)"

text \<open>\<open>url.Values\<close> is a \<open>map[string][]string\<close>: an association list with one entry
  per key.\<close>

type_synonym Values = "(string \<times> string list) list"

definition Values_lookup :: "Values \<Rightarrow> string \<Rightarrow> string list" where
  "Values_lookup m key = (case map_of m key of None \<Rightarrow> [] | Some vs \<Rightarrow> vs)"

text \<open>\<open>parseQuery(m, query)\<close>: the loop over the \<open>&\<close>-separated pairs. A pair with a
  semicolon sets the error and is skipped, an empty pair is skipped, a pair whose key or
  value does not unescape is skipped and its error kept if it is the first.\<close>

function parseQuery :: "Values \<Rightarrow> string \<Rightarrow> error option \<Rightarrow> Values \<times> error option" where
  "parseQuery m query err =
     (if query = [] then (m, err)
      else
        (let key = Cut_before query CHR ''&'';
             query' = Cut_after query CHR ''&''
         in if CHR '';'' \<in> set key
            then parseQuery m query' (Some (errorString ''invalid semicolon separator in query''))
            else if key = [] then parseQuery m query' err
            else
              (case QueryUnescape (Cut_before key CHR ''='') of
                 Inl err1 \<Rightarrow> parseQuery m query' (if err = None then Some err1 else err)
               | Inr k \<Rightarrow>
                   (case QueryUnescape (Cut_after key CHR ''='') of
                      Inl err1 \<Rightarrow> parseQuery m query' (if err = None then Some err1 else err)
                    | Inr v \<Rightarrow>
                        parseQuery (AList.update k (Values_lookup m k @ [v]) m) query' err))))"
  by pat_completeness auto
termination
  by (relation "measure (\<lambda>(m, query, err). length query)")
     (auto simp: Cut_after_def neq_Nil_conv
           intro!: le_imp_less_Suc order.trans [OF diff_le_self length_dropWhile_le])

declare parseQuery.simps [simp del]

definition ParseQuery :: "string \<Rightarrow> Values \<times> error option" where
  "ParseQuery query = parseQuery [] query None"

text \<open>\<open>Values.Set\<close> replaces the values of a key; \<open>Values.Encode\<close> writes the pairs
  with the keys sorted, key and value escaped, joined by \<open>&\<close>.\<close>

definition Values_Set :: "Values \<Rightarrow> string \<Rightarrow> string \<Rightarrow> Values" where
  "Values_Set m key v = AList.update key [v] m"

fun join :: "string list \<Rightarrow> string \<Rightarrow> string" where
  "join [] sep = []"
| "join [x] sep = x"
| "join (x # y # ys) sep = x @ sep @ join (y # ys) sep"

definition Values_Encode :: "Values \<Rightarrow> string" where
  "Values_Encode m =
     join (concat (map (\<lambda>k. map (\<lambda>v. QueryEscape k @ ''='' @ QueryEscape v) (Values_lookup m k))
                       (sort (map fst m)))) ''&''"

section \<open>The part of encoding/json the program uses\<close>

text \<open>
  A JSON value as the decoder's scanner delivers it: strings and object keys already
  unquoted (valid UTF-8 bytes), a number as its literal text, the members of an object in
  document order (a key may occur more than once).
\<close>

datatype json =
    JNull
  | JBool bool
  | JNumber string
  | JString string
  | JArray "json list"
  | JObject "(string \<times> json) list"

text \<open>
  The name of a key or of a field, folded for the case-insensitive match: ASCII letters
  in upper case; the two runes whose simple case folding reaches an ASCII letter, the
  long s (U+017F, bytes C5 BF) and the Kelvin sign (U+212A, bytes E2 84 AA), as
  \<open>S\<close> and \<open>K\<close>. Every other rune beyond ASCII folds to a rune beyond ASCII; its
  bytes are left as they are, which does not change whether a folded key equals a folded
  field name of this program (they are ASCII).
\<close>

fun foldName :: "string \<Rightarrow> string" where
  "foldName [] = []"
| "foldName (c # cs) =
     (if CHR ''a'' \<le> c \<and> c \<le> CHR ''z''
        then char_of (of_char c - (32::nat)) # foldName cs
      else if c = CHR 0xC5 \<and> take 1 cs = [CHR 0xBF]
        then CHR ''S'' # foldName (drop 1 cs)
      else if c = CHR 0xE2 \<and> take 2 cs = [CHR 0x84, CHR 0xAA]
        then CHR ''K'' # foldName (drop 2 cs)
      else c # foldName cs)"

text \<open>
  A field of a struct type, as the decoder sees it: its JSON name (the tag) and the
  decoding of a JSON value into that field of a struct value.
\<close>

type_synonym 'a field = "string \<times> (json \<Rightarrow> 'a \<Rightarrow> error + 'a)"

text \<open>The field a key names: an exact match is preferred, a match of the folded names
  is accepted.\<close>

definition lookup_field :: "'a field list \<Rightarrow> string \<Rightarrow> 'a field option" where
  "lookup_field flds key =
     (case find (\<lambda>f. fst f = key) flds of
        Some f \<Rightarrow> Some f
      | None \<Rightarrow> find (\<lambda>f. foldName (fst f) = foldName key) flds)"

text \<open>
  The members of a JSON object, decoded in document order into a struct value: a key
  that names no field is skipped, a key that names a field decodes its value into that
  field, on top of what the field holds. The decoder records the first type mismatch and
  returns it when it is done; the model stops there, since the program drops the struct
  when \<open>Decode\<close> returns an error.
\<close>

fun object_members :: "'a field list \<Rightarrow> (string \<times> json) list \<Rightarrow> 'a \<Rightarrow> error + 'a" where
  "object_members flds [] v = Inr v"
| "object_members flds ((key, j) # ms) v =
     (case lookup_field flds key of
        None \<Rightarrow> object_members flds ms v
      | Some f \<Rightarrow>
          (case snd f j v of
             Inl e \<Rightarrow> Inl e
           | Inr v' \<Rightarrow> object_members flds ms v'))"

text \<open>A JSON value decoded into a struct: an object sets fields, \<open>null\<close> leaves the
  struct alone, anything else is a type mismatch.\<close>

fun decode_struct :: "'a field list \<Rightarrow> json \<Rightarrow> 'a \<Rightarrow> error + 'a" where
  "decode_struct flds (JObject ms) v = object_members flds ms v"
| "decode_struct flds JNull v = Inr v"
| "decode_struct flds (JArray js) v = Inl (UnmarshalTypeError ''array'')"
| "decode_struct flds (JString s) v = Inl (UnmarshalTypeError ''string'')"
| "decode_struct flds (JNumber n) v = Inl (UnmarshalTypeError ''number'')"
| "decode_struct flds (JBool b) v = Inl (UnmarshalTypeError ''bool'')"

text \<open>A JSON value decoded into a string: a string is stored, \<open>null\<close> leaves the
  string alone, anything else is a type mismatch.\<close>

fun decode_string :: "json \<Rightarrow> string \<Rightarrow> error + string" where
  "decode_string (JString s) v = Inr s"
| "decode_string JNull v = Inr v"
| "decode_string (JArray js) v = Inl (UnmarshalTypeError ''array'')"
| "decode_string (JObject ms) v = Inl (UnmarshalTypeError ''object'')"
| "decode_string (JNumber n) v = Inl (UnmarshalTypeError ''number'')"
| "decode_string (JBool b) v = Inl (UnmarshalTypeError ''bool'')"

text \<open>
  A slice: the elements up to its length, and what its backing array holds beyond the
  length from earlier writes (cells never written hold the zero value and are not
  listed). Whether the slice is nil or empty is not kept: the program only ranges over
  it.
\<close>

record 'a slice =
  elems :: "'a list"
  spare :: "'a list"

definition nil_slice :: "'a slice" where
  "nil_slice = \<lparr>elems = [], spare = []\<rparr>"

text \<open>
  The elements of a JSON array decoded into a slice, cell after cell: element \<open>i\<close> is
  decoded on top of what cell \<open>i\<close> of the backing array holds, the zero value when the
  cell was never written.
\<close>

fun array_elems :: "(json \<Rightarrow> 'a \<Rightarrow> error + 'a) \<Rightarrow> 'a \<Rightarrow> json list \<Rightarrow> 'a list \<Rightarrow> error + 'a list" where
  "array_elems dec zero [] cells = Inr []"
| "array_elems dec zero (j # js) cells =
     (case dec j (case cells of [] \<Rightarrow> zero | c # _ \<Rightarrow> c) of
        Inl e \<Rightarrow> Inl e
      | Inr x \<Rightarrow>
          (case array_elems dec zero js (tl cells) of
             Inl e \<Rightarrow> Inl e
           | Inr xs \<Rightarrow> Inr (x # xs)))"

text \<open>A JSON value decoded into a slice: an array sets the elements (an empty array
  gives a fresh empty slice), \<open>null\<close> gives the nil slice, anything else is a type
  mismatch.\<close>

fun decode_slice :: "(json \<Rightarrow> 'a \<Rightarrow> error + 'a) \<Rightarrow> 'a \<Rightarrow> json \<Rightarrow> 'a slice \<Rightarrow> error + 'a slice" where
  "decode_slice dec zero (JArray js) s =
     (case array_elems dec zero js (elems s @ spare s) of
        Inl e \<Rightarrow> Inl e
      | Inr xs \<Rightarrow>
          Inr (if js = [] then nil_slice
               else \<lparr>elems = xs, spare = drop (length js) (elems s @ spare s)\<rparr>))"
| "decode_slice dec zero JNull s = Inr nil_slice"
| "decode_slice dec zero (JObject ms) s = Inl (UnmarshalTypeError ''object'')"
| "decode_slice dec zero (JString t) s = Inl (UnmarshalTypeError ''string'')"
| "decode_slice dec zero (JNumber n) s = Inl (UnmarshalTypeError ''number'')"
| "decode_slice dec zero (JBool b) s = Inl (UnmarshalTypeError ''bool'')"

text \<open>
  \<open>json.NewDecoder(body).Decode(&v)\<close>: the body is what the scanner makes of the
  stream, either the error it stops with (no JSON value at the start of the stream, or
  the stream cannot be read) or the first JSON value.
\<close>

type_synonym body = "error + json"

definition Decode :: "'a field list \<Rightarrow> body \<Rightarrow> 'a \<Rightarrow> error + 'a" where
  "Decode flds b v = (case b of Inl e \<Rightarrow> Inl e | Inr j \<Rightarrow> decode_struct flds j v)"

section \<open>The part of net/http and of the network the program uses\<close>

text \<open>
  Of a \<open>url.URL\<close> the program reads and writes \<open>RawQuery\<close> only; \<open>Location\<close>
  stands for the rest (scheme, host, path).
\<close>

record url =
  Location :: string
  RawQuery :: string

definition URL_Query :: "url \<Rightarrow> Values" where
  "URL_Query u = fst (ParseQuery (RawQuery u))"

record request =
  Method :: string
  URL :: url

record response =
  StatusCode :: int
  Body :: body

text \<open>
  What the program cannot decide by itself is a parameter: \<open>debug\<close> is the value of
  the global flag \<open>*debug\<close>, \<open>NewRequest\<close> is \<open>http.NewRequest(method, url, nil)\<close>,
  \<open>Do\<close> is \<open>http.DefaultClient.Do\<close>, the answer of the network to a request, and
  \<open>ErrorText\<close> is the message \<open>err.Error()\<close> of an error of the library, whose
  wording is the library's.
\<close>

record world =
  debug :: bool
  NewRequest :: "string \<Rightarrow> string \<Rightarrow> error + request"
  Do :: "request \<Rightarrow> error + response"
  ErrorText :: "error \<Rightarrow> string"

definition MethodGet :: string where
  "MethodGet = ''GET''"

section \<open>The part of flag the subcommands use\<close>

text \<open>A call either returns or ends the process with an exit code.\<close>

datatype 'a outcome = Exit int | Return 'a

text \<open>
  \<open>flagSet.Parse(args)\<close> followed by \<open>flagSet.Args()\<close>, for a flag set that defines
  no flag and has the error handling \<open>flag.ExitOnError\<close>. Parsing looks at the first
  argument: when it is not of the form of a flag the arguments are all positional, \<open>--\<close>
  ends the flags and is dropped, and any flag is an error, since none is defined: the
  process exits with code 0 for \<open>-h\<close> and \<open>-help\<close>, with code 2 otherwise.
\<close>

definition flagSet_Parse :: "string list \<Rightarrow> string list outcome" where
  "flagSet_Parse args =
     (case args of
        [] \<Rightarrow> Return []
      | s # rest \<Rightarrow>
          if length s < 2 \<or> s ! 0 \<noteq> CHR ''-'' then Return args
          else if s ! 1 = CHR ''-'' \<and> length s = 2 then Return rest
          else
            (let name = drop (if s ! 1 = CHR ''-'' then 2 else 1) s
             in if length name = 0 \<or> name ! 0 = CHR ''-'' \<or> name ! 0 = CHR ''=''
                then Exit 2
                else
                  (let name = name ! 0 # takeWhile (\<lambda>c. c \<noteq> CHR ''='') (tl name)
                   in if name = ''help'' \<or> name = ''h'' then Exit 0 else Exit 2)))"

section \<open>The program\<close>

text \<open>
  The item types of the two searches with their struct tags, and the envelope
  \<open>searchResult\<close>, which the two functions declare alike but for the item type.
\<close>

record repo =
  FullName :: string

record user =
  Login :: string

record 'a searchResult =
  Items :: "'a slice"

definition repo_fields :: "repo field list" where
  "repo_fields =
     [(''full_Name'', \<lambda>j r. case decode_string j (FullName r) of
                                Inl e \<Rightarrow> Inl e
                              | Inr s \<Rightarrow> Inr (r\<lparr>FullName := s\<rparr>))]"

definition user_fields :: "user field list" where
  "user_fields =
     [(''login'', \<lambda>j u. case decode_string j (Login u) of
                            Inl e \<Rightarrow> Inl e
                          | Inr s \<Rightarrow> Inr (u\<lparr>Login := s\<rparr>))]"

definition searchResult_fields :: "'a field list \<Rightarrow> 'a \<Rightarrow> 'a searchResult field list" where
  "searchResult_fields item_fields zero =
     [(''items'', \<lambda>j r. case decode_slice (decode_struct item_fields) zero j (Items r) of
                            Inl e \<Rightarrow> Inl e
                          | Inr s \<Rightarrow> Inr (r\<lparr>Items := s\<rparr>))]"

text \<open>
  What a function does besides returning: the requests it hands to the network, and
  what it writes to standard output, one entry for each call of \<open>fmt.Printf\<close> or
  \<open>fmt.Println\<close>.
\<close>

record effects =
  Sent :: "request list"
  Stdout :: "string list"

text \<open>
  \<open>fmt.Sprintf("%v", err)\<close> is the message of the error: the text given to
  \<open>errors.New\<close>, or the text of the library. \<open>Sprint_strings\<close> is how \<open>%v\<close> and
  \<open>%s\<close> write a slice of strings, \<open>Println\<close> the line that \<open>fmt.Println\<close>
  writes for one string.
\<close>

definition Sprintf_v :: "world \<Rightarrow> error \<Rightarrow> string" where
  "Sprintf_v w err = (case err of errorString msg \<Rightarrow> msg | _ \<Rightarrow> ErrorText w err)"

definition Sprint_strings :: "string list \<Rightarrow> string" where
  "Sprint_strings xs = ''['' @ join xs '' '' @ '']''"

definition Println :: "string \<Rightarrow> string" where
  "Println s = s @ [CHR 0x0A]"

definition printDebug :: "world \<Rightarrow> string \<Rightarrow> string list" where
  "printDebug w msg = (if debug w then [''[DEBUG]: '' @ msg @ [CHR 0x0A]] else [])"

text \<open>
  \<open>findRepos\<close> and \<open>findUsers\<close> return their effects and the pair of Go: the slice
  (\<open>None\<close> for \<open>nil\<close>) and the error (\<open>None\<close> for \<open>nil\<close>).
\<close>

type_synonym found = "effects \<times> string list option \<times> error option"

definition findRepos :: "world \<Rightarrow> string \<Rightarrow> found" where
  "findRepos w term =
     (case NewRequest w MethodGet ''https://api.github.com/search/repositories'' of
        Inl err \<Rightarrow>
          (\<lparr>Sent = [], Stdout = printDebug w (Sprintf_v w err)\<rparr>,
           None, Some (errors_New ''failed to connect to github''))
      | Inr req \<Rightarrow>
          (let query = URL_Query (URL req);
               query = Values_Set query ''q'' term;
               req = req\<lparr>URL := (URL req)\<lparr>RawQuery := Values_Encode query\<rparr>\<rparr>
           in case Do w req of
                Inl err \<Rightarrow>
                  (\<lparr>Sent = [req], Stdout = printDebug w (Sprintf_v w err)\<rparr>,
                   None, Some (errors_New ''failed to connect to github''))
              | Inr res \<Rightarrow>
                  if StatusCode res < 200 \<or> StatusCode res \<ge> 300
                  then (\<lparr>Sent = [req], Stdout = []\<rparr>,
                        None, Some (errors_New ''failed to connect to github''))
                  else
                    (case Decode (searchResult_fields repo_fields \<lparr>FullName = []\<rparr>) (Body res)
                            \<lparr>Items = nil_slice\<rparr> of
                       Inl err \<Rightarrow>
                         (\<lparr>Sent = [req], Stdout = printDebug w (Sprintf_v w err)\<rparr>,
                          None, Some (errors_New ''failed to connect to github''))
                     | Inr results \<Rightarrow>
                         (\<lparr>Sent = [req], Stdout = []\<rparr>,
                          Some (foldl (\<lambda>repos r. repos @ [FullName r]) [] (elems (Items results))),
                          None))))"

definition findUsers :: "world \<Rightarrow> string \<Rightarrow> found" where
  "findUsers w term =
     (case NewRequest w MethodGet ''https://api.github.com/search/users'' of
        Inl err \<Rightarrow>
          (\<lparr>Sent = [], Stdout = printDebug w (Sprintf_v w err)\<rparr>,
           None, Some (errors_New ''failed to connect to github''))
      | Inr req \<Rightarrow>
          (let query = URL_Query (URL req);
               query = Values_Set query ''q'' term;
               req = req\<lparr>URL := (URL req)\<lparr>RawQuery := Values_Encode query\<rparr>\<rparr>
           in case Do w req of
                Inl err \<Rightarrow>
                  (\<lparr>Sent = [req], Stdout = printDebug w (Sprintf_v w err)\<rparr>,
                   None, Some (errors_New ''failed to connect to github''))
              | Inr res \<Rightarrow>
                  if StatusCode res < 200 \<or> StatusCode res \<ge> 300
                  then (\<lparr>Sent = [req], Stdout = []\<rparr>,
                        None, Some (errors_New ''failed to connect to github''))
                  else
                    (case Decode (searchResult_fields user_fields \<lparr>Login = []\<rparr>) (Body res)
                            \<lparr>Items = nil_slice\<rparr> of
                       Inl err \<Rightarrow>
                         (\<lparr>Sent = [req], Stdout = printDebug w (Sprintf_v w err)\<rparr>,
                          None, Some (errors_New ''failed to connect to github''))
                     | Inr results \<Rightarrow>
                         (\<lparr>Sent = [req], Stdout = []\<rparr>,
                          Some (foldl (\<lambda>repos r. repos @ [Login r]) [] (elems (Items results))),
                          None))))"

text \<open>
  A subcommand returns its effects, and either the error of Go or the exit code with
  which parsing its arguments ends the process (what the package \<open>flag\<close> writes then
  goes to standard error).
\<close>

type_synonym executed = "effects \<times> error option outcome"

definition executeSearchRepos :: "world \<Rightarrow> string list \<Rightarrow> executed" where
  "executeSearchRepos w args =
     (case flagSet_Parse args of
        Exit code \<Rightarrow> (\<lparr>Sent = [], Stdout = []\<rparr>, Exit code)
      | Return flagSet_Args \<Rightarrow>
          (let out = printDebug w (''[search-repos] Args: '' @ Sprint_strings flagSet_Args)
           in if length flagSet_Args = 0
              then (\<lparr>Sent = [], Stdout = out\<rparr>,
                    Return (Some (errors_New
                      ''provide a search term for searching repos: search-repos <search_term>'')))
              else
                (let searchTerm = flagSet_Args ! 0;
                     out = out @ printDebug w (''[search-repos] Search Term: '' @ searchTerm)
                 in case findRepos w searchTerm of
                      (eff, repos, Some err) \<Rightarrow>
                        (\<lparr>Sent = Sent eff, Stdout = out @ Stdout eff\<rparr>, Return (Some err))
                    | (eff, repos, None) \<Rightarrow>
                        (\<lparr>Sent = Sent eff,
                          Stdout = out @ Stdout eff
                            @ [Println (join (case repos of None \<Rightarrow> [] | Some xs \<Rightarrow> xs) '', '')]\<rparr>,
                         Return None))))"

definition executeSearchUsers :: "world \<Rightarrow> string list \<Rightarrow> executed" where
  "executeSearchUsers w args =
     (case flagSet_Parse args of
        Exit code \<Rightarrow> (\<lparr>Sent = [], Stdout = []\<rparr>, Exit code)
      | Return flagSet_Args \<Rightarrow>
          (let out = printDebug w (''[search-repos] Args: '' @ Sprint_strings flagSet_Args)
           in if length flagSet_Args = 0
              then (\<lparr>Sent = [], Stdout = out\<rparr>,
                    Return (Some (errors_New
                      ''provide a search term for searching repos: search-repos <search_term>'')))
              else
                (let searchTerm = flagSet_Args ! 0;
                     out = out @ printDebug w (''[search-repos] Search Term: '' @ searchTerm)
                 in case findUsers w searchTerm of
                      (eff, users, Some err) \<Rightarrow>
                        (\<lparr>Sent = Sent eff, Stdout = out @ Stdout eff\<rparr>, Return (Some err))
                    | (eff, users, None) \<Rightarrow>
                        (\<lparr>Sent = Sent eff,
                          Stdout = out @ Stdout eff
                            @ [Println (join (case users of None \<Rightarrow> [] | Some xs \<Rightarrow> xs) '', '')]\<rparr>,
                         Return None))))"

text \<open>\<open>executeCommand\<close> writes its two debug lines, then runs the subcommand;
  \<open>fmt.Errorf\<close> has the format \<open>invalid command: '%s'\<close>.\<close>

definition executeCommand :: "world \<Rightarrow> string \<Rightarrow> string list \<Rightarrow> executed" where
  "executeCommand w command args =
     (let out = printDebug w (''Command: '' @ command)
                  @ printDebug w (''Args: '' @ Sprint_strings args)
      in if command = ''search-repos''
         then (case executeSearchRepos w args of (eff, r) \<Rightarrow> (eff\<lparr>Stdout := out @ Stdout eff\<rparr>, r))
         else if command = ''search-users''
         then (case executeSearchUsers w args of (eff, r) \<Rightarrow> (eff\<lparr>Stdout := out @ Stdout eff\<rparr>, r))
         else (\<lparr>Sent = [], Stdout = out\<rparr>,
               Return (Some (errorString
                 (''invalid command: '' @ [CHR 0x27] @ command @ [CHR 0x27])))))"

section \<open>Networks for the examples\<close>

text \<open>
  \<open>plain_request\<close> builds the request as \<open>http.NewRequest\<close> does for a URL
  without a query. \<open>answering status b\<close> is a network that answers every request with
  the given status and body, \<open>unreachable\<close> one where the transport fails, and
  \<open>no_request\<close> a library that builds no request; the debug flag is set in
  \<open>unreachable\<close> only. \<open>sent_request u term\<close> is the
  request for the endpoint \<open>u\<close> with the query \<open>q=term\<close>, escaped.
  \<open>two_repos\<close> and \<open>one_user\<close> are the envelopes
  \<open>{"items":[{"full_name":"golang/go"},{"full_name":"golang/tools"}]}\<close> and
  \<open>{"items":[{"login":"torvalds"}]}\<close>.
\<close>

definition plain_request :: "string \<Rightarrow> string \<Rightarrow> error + request" where
  "plain_request method u = Inr \<lparr>Method = method, URL = \<lparr>Location = u, RawQuery = []\<rparr>\<rparr>"

definition answering :: "int \<Rightarrow> body \<Rightarrow> world" where
  "answering status b =
     \<lparr>debug = False, NewRequest = plain_request,
      Do = (\<lambda>req. Inr \<lparr>StatusCode = status, Body = b\<rparr>),
      ErrorText = (\<lambda>e. ''json: cannot unmarshal'')\<rparr>"

definition unreachable :: world where
  "unreachable =
     \<lparr>debug = True, NewRequest = plain_request,
      Do = (\<lambda>req. Inl (TransportError ''no such host'')),
      ErrorText = (\<lambda>e. ''dial tcp: lookup api.github.com: no such host'')\<rparr>"

definition no_request :: world where
  "no_request =
     \<lparr>debug = False,
      NewRequest = (\<lambda>method u. Inl (errorString ''net/http: invalid method'')),
      Do = (\<lambda>req. Inl (TransportError ''no such host'')),
      ErrorText = (\<lambda>e. ''dial tcp: lookup api.github.com: no such host'')\<rparr>"

definition sent_request :: "string \<Rightarrow> string \<Rightarrow> request" where
  "sent_request u term =
     \<lparr>Method = ''GET'', URL = \<lparr>Location = u, RawQuery = ''q='' @ QueryEscape term\<rparr>\<rparr>"

definition two_repos :: json where
  "two_repos = JObject [(''items'',
           JArray [JObject [(''full_name'', JString ''golang/go'')],
                   JObject [(''full_name'', JString ''golang/tools'')]])]"

definition one_user :: json where
  "one_user = JObject [(''items'', JArray [JObject [(''login'', JString ''torvalds'')]])]"

section \<open>The query string\<close>

lemma upperhex_digits:
  "\<forall>n \<in> set [0..<16]. ishex (upperhex ! n) \<and> unhex (upperhex ! n) = n
      \<and> upperhex ! n \<notin> {CHR ''&'', CHR '';'', CHR ''=''}"
  by code_simp

lemma nibbles: "of_char c div 16 < (16::nat)" "of_char c mod 16 < (16::nat)"
proof -
  have "of_char c < (256::nat)" by simp
  then show "of_char c div 16 < (16::nat)" by linarith
  show "of_char c mod 16 < (16::nat)" by simp
qed

lemma ishex_upperhex: "n < 16 \<Longrightarrow> ishex (upperhex ! n)"
  using upperhex_digits by simp

lemma unhex_upperhex: "n < 16 \<Longrightarrow> unhex (upperhex ! n) = n"
  using upperhex_digits by simp

lemma upperhex_plain: "n < 16 \<Longrightarrow> upperhex ! n \<notin> {CHR ''&'', CHR '';'', CHR ''=''}"
  using upperhex_digits by simp

lemma not_shouldEscape_plain:
  "\<not> shouldEscape c \<Longrightarrow> c \<notin> {CHR ''%'', CHR ''+'', CHR ''&'', CHR '';'', CHR ''=''}"
  by (auto simp: shouldEscape_def)

lemma unescape_escape_byte:
  "QueryUnescape (escape_byte c @ s) =
     (case QueryUnescape s of Inl e \<Rightarrow> Inl e | Inr t \<Rightarrow> Inr (c # t))"
proof (cases "c = CHR '' ''")
  case True
  then show ?thesis by (simp add: escape_byte_def split: sum.splits)
next
  case False
  show ?thesis
  proof (cases "shouldEscape c")
    case True
    have "char_of (of_char c div 16 * 16 + of_char c mod (16::nat)) = c" by simp
    with True False show ?thesis
      by (simp add: escape_byte_def ishex_upperhex unhex_upperhex nibbles split: sum.splits)
  next
    case no: False
    with not_shouldEscape_plain [OF no] False show ?thesis
      by (simp add: escape_byte_def split: sum.splits)
  qed
qed

lemma unescape_escape: "QueryUnescape (QueryEscape s) = Inr s"
  by (induction s) (simp_all add: QueryEscape_def unescape_escape_byte)

lemma escape_byte_plain: "x \<in> set (escape_byte c) \<Longrightarrow> x \<notin> {CHR ''&'', CHR '';'', CHR ''=''}"
  using upperhex_plain [OF nibbles(1), of c] upperhex_plain [OF nibbles(2), of c]
    not_shouldEscape_plain [of c]
  by (auto simp: escape_byte_def split: if_splits)

lemma escape_plain: "x \<in> set (QueryEscape s) \<Longrightarrow> x \<notin> {CHR ''&'', CHR '';'', CHR ''=''}"
  using escape_byte_plain by (fastforce simp: QueryEscape_def)

lemma parseQuery_Nil: "parseQuery m [] err = (m, err)"
  by (simp add: parseQuery.simps)

lemma ParseQuery_empty: "ParseQuery [] = ([], None)"
  by (simp add: ParseQuery_def parseQuery_Nil)

lemma QueryEscape_q: "QueryEscape ''q'' = ''q''"
  by (simp add: QueryEscape_def escape_byte_def shouldEscape_def)

lemma Encode_q:
  "Values_Encode (Values_Set [] ''q'' term) = ''q='' @ QueryEscape term"
  by (simp add: Values_Encode_def Values_Set_def Values_lookup_def QueryEscape_q)

lemma ParseQuery_q:
  "ParseQuery (''q='' @ QueryEscape term) = ([(''q'', [term])], None)"
proof -
  let ?e = "QueryEscape term"
  have plain: "\<forall>x \<in> set ?e. x \<noteq> CHR ''&'' \<and> x \<noteq> CHR '';'' \<and> x \<noteq> CHR ''=''"
    using escape_plain by auto
  have key: "Cut_before (''q='' @ ?e) CHR ''&'' = ''q='' @ ?e"
    using plain by (simp add: Cut_before_def)
  have dw: "dropWhile (\<lambda>c. c \<noteq> CHR ''&'') (''q='' @ ?e) = []"
    using plain by simp
  have rest: "Cut_after (''q='' @ ?e) CHR ''&'' = []"
    unfolding Cut_after_def dw by simp
  have semi: "CHR '';'' \<notin> set (''q='' @ ?e)"
    using plain by auto
  have k: "Cut_before (''q='' @ ?e) CHR ''='' = ''q''"
    by (simp add: Cut_before_def)
  have v: "Cut_after (''q='' @ ?e) CHR ''='' = ?e"
    by (simp add: Cut_after_def)
  have uq: "QueryUnescape ''q'' = Inr ''q''" by simp
  show ?thesis
    unfolding ParseQuery_def
    by (subst parseQuery.simps)
       (simp add: Let_def key rest k v unescape_escape semi parseQuery_Nil Values_lookup_def
             del: append.simps set_append)
qed

section \<open>Decoding the envelope\<close>

lemma lookup_field_single:
  "lookup_field [(name, dec)] key =
     (if foldName name = foldName key then Some (name, dec) else None)"
  by (auto simp: lookup_field_def)

lemma object_members_skip:
  "\<forall>k \<in> fst ` set ms. lookup_field flds k = None \<Longrightarrow> object_members flds ms v = Inr v"
  by (induction ms) auto

lemma object_members_append:
  "object_members flds (ms1 @ ms2) v =
     (case object_members flds ms1 v of Inl e \<Rightarrow> Inl e | Inr v' \<Rightarrow> object_members flds ms2 v')"
  by (induction ms1 arbitrary: v) (auto split: option.splits sum.splits)


lemma array_elems_fresh_Inr:
  "array_elems dec zero js [] = Inr xs \<Longrightarrow>
   length xs = length js \<and> (\<forall>j<length js. dec (js ! j) zero = Inr (xs ! j))"
proof (induction js arbitrary: xs)
  case Nil
  then show ?case by simp
next
  case (Cons j js)
  then show ?case
    by (auto simp: nth_Cons split: sum.splits nat.splits)
qed

lemma Decode_envelope:
  assumes "\<forall>k \<in> fst ` set (ms1 @ ms2). foldName k \<noteq> foldName ''items''"
  shows "Decode (searchResult_fields flds zero)
           (Inr (JObject (ms1 @ (''items'', JArray its) # ms2))) \<lparr>Items = nil_slice\<rparr> =
         (case array_elems (decode_struct flds) zero its [] of
            Inl e \<Rightarrow> Inl e
          | Inr xs \<Rightarrow> Inr \<lparr>Items = \<lparr>elems = xs, spare = []\<rparr>\<rparr>)"
proof -
  let ?F = "searchResult_fields flds zero"
  have skip: "\<And>k. foldName k \<noteq> foldName ''items'' \<Longrightarrow> lookup_field ?F k = None"
    by (auto simp: searchResult_fields_def lookup_field_single)
  have s1: "\<And>v. object_members ?F ms1 v = Inr v"
    using assms skip by (intro object_members_skip) auto
  have s2: "\<And>v. object_members ?F ms2 v = Inr v"
    using assms skip by (intro object_members_skip) auto
  have hit: "lookup_field ?F ''items'' = Some (hd ?F)"
    by (simp add: searchResult_fields_def lookup_field_single)
  have empty: "its = [] \<Longrightarrow> array_elems (decode_struct flds) zero its [] = Inr []"
    by simp
  show ?thesis
    using empty
    by (auto simp: Decode_def object_members_append s1 s2 hit nil_slice_def
        split: sum.splits) (auto simp: searchResult_fields_def nil_slice_def split: sum.splits)
qed

lemma Decode_no_items:
  assumes "\<forall>k \<in> fst ` set ms. foldName k \<noteq> foldName ''items''"
  shows "Decode (searchResult_fields flds zero) (Inr (JObject ms)) v = Inr v"
proof -
  have "\<And>k. foldName k \<noteq> foldName ''items'' \<Longrightarrow>
        lookup_field (searchResult_fields flds zero) k = None"
    by (auto simp: searchResult_fields_def lookup_field_single)
  with assms show ?thesis
    by (auto simp: Decode_def intro!: object_members_skip)
qed



lemma foldName_tags:
  "foldName ''items'' = ''ITEMS''" "foldName ''full_Name'' = ''FULL_NAME''"
  "foldName ''login'' = ''LOGIN''" "foldName ''full_name'' = ''FULL_NAME''"
  by code_simp+

lemma Decode_two_repos:
  "Decode (searchResult_fields repo_fields \<lparr>FullName = []\<rparr>) (Inr two_repos)
          \<lparr>Items = nil_slice\<rparr>
   = Inr \<lparr>Items = \<lparr>elems = [\<lparr>FullName = ''golang/go''\<rparr>, \<lparr>FullName = ''golang/tools''\<rparr>],
                      spare = []\<rparr>\<rparr>"
  by (simp add: two_repos_def Decode_def searchResult_fields_def repo_fields_def
      lookup_field_single nil_slice_def foldName_tags del: foldName.simps)

lemma Decode_one_user:
  "Decode (searchResult_fields user_fields \<lparr>Login = []\<rparr>) (Inr one_user) \<lparr>Items = nil_slice\<rparr>
   = Inr \<lparr>Items = \<lparr>elems = [\<lparr>Login = ''torvalds''\<rparr>], spare = []\<rparr>\<rparr>"
  by (simp add: one_user_def Decode_def searchResult_fields_def user_fields_def
      lookup_field_single nil_slice_def foldName_tags del: foldName.simps)

lemma Decode_no_item:
  "Decode (searchResult_fields flds zero) (Inr (JObject [(''items'', JArray [])]))
          \<lparr>Items = nil_slice\<rparr>
   = Inr \<lparr>Items = nil_slice\<rparr>"
  by (simp add: Decode_def searchResult_fields_def lookup_field_single nil_slice_def)


section \<open>The two searches, step by step\<close>

lemma foldl_append_field: "foldl (\<lambda>acc r. acc @ [f r]) acc xs = acc @ map f xs"
  by (induction xs arbitrary: acc) simp_all

lemma findRepos_after:
  assumes "Sent (fst (findRepos w term)) = [sent]"
  shows "snd (findRepos w term) =
    (case Do w sent of
       Inl err \<Rightarrow> (None, Some (errors_New ''failed to connect to github''))
     | Inr res \<Rightarrow>
         if StatusCode res < 200 \<or> StatusCode res \<ge> 300
         then (None, Some (errors_New ''failed to connect to github''))
         else (case Decode (searchResult_fields repo_fields \<lparr>FullName = []\<rparr>) (Body res)
                      \<lparr>Items = nil_slice\<rparr> of
                 Inl err \<Rightarrow> (None, Some (errors_New ''failed to connect to github''))
               | Inr results \<Rightarrow> (Some (map FullName (elems (Items results))), None)))"
  using assms
  by (auto simp: findRepos_def Let_def foldl_append_field split: sum.splits if_splits)

lemma findRepos_sent_cases:
  "snd (findRepos w term) = (None, Some (errors_New ''failed to connect to github''))
   \<or> (\<exists>sent. Sent (fst (findRepos w term)) = [sent])"
  by (auto simp: findRepos_def Let_def split: sum.splits if_splits)

lemma findUsers_after:
  assumes "Sent (fst (findUsers w term)) = [sent]"
  shows "snd (findUsers w term) =
    (case Do w sent of
       Inl err \<Rightarrow> (None, Some (errors_New ''failed to connect to github''))
     | Inr res \<Rightarrow>
         if StatusCode res < 200 \<or> StatusCode res \<ge> 300
         then (None, Some (errors_New ''failed to connect to github''))
         else (case Decode (searchResult_fields user_fields \<lparr>Login = []\<rparr>) (Body res)
                      \<lparr>Items = nil_slice\<rparr> of
                 Inl err \<Rightarrow> (None, Some (errors_New ''failed to connect to github''))
               | Inr results \<Rightarrow> (Some (map Login (elems (Items results))), None)))"
  using assms
  by (auto simp: findUsers_def Let_def foldl_append_field split: sum.splits if_splits)

lemma findUsers_sent_cases:
  "snd (findUsers w term) = (None, Some (errors_New ''failed to connect to github''))
   \<or> (\<exists>sent. Sent (fst (findUsers w term)) = [sent])"
  by (auto simp: findUsers_def Let_def split: sum.splits if_splits)

lemma findRepos_plain_sent:
  "NewRequest w = plain_request \<Longrightarrow>
   Sent (fst (findRepos w term)) = [sent_request ''https://api.github.com/search/repositories'' term]"
  by (auto simp: findRepos_def plain_request_def sent_request_def MethodGet_def Let_def
      URL_Query_def ParseQuery_empty Encode_q split: sum.splits)

lemma findUsers_plain_sent:
  "NewRequest w = plain_request \<Longrightarrow>
   Sent (fst (findUsers w term)) = [sent_request ''https://api.github.com/search/users'' term]"
  by (auto simp: findUsers_def plain_request_def sent_request_def MethodGet_def Let_def
      URL_Query_def ParseQuery_empty Encode_q split: sum.splits)

lemma answering_sent:
  "Sent (fst (findRepos (answering status b) term))
     = [sent_request ''https://api.github.com/search/repositories'' term]"
  "Sent (fst (findUsers (answering status b) term))
     = [sent_request ''https://api.github.com/search/users'' term]"
  "Do (answering status b) req = Inr \<lparr>StatusCode = status, Body = b\<rparr>"
  by (simp_all add: findRepos_plain_sent findUsers_plain_sent answering_def)

lemma Encode_plain:
  "RawQuery u = [] \<Longrightarrow> Values_Encode (Values_Set (URL_Query u) ''q'' term) = ''q='' @ QueryEscape term"
  by (simp add: URL_Query_def ParseQuery_empty Encode_q)

lemma QueryEscape_example: "QueryEscape ''go lang&x'' = ''go+lang%26x''"
  by code_simp

lemma items_decoded:
  assumes "array_elems dec zero its [] = Inr xs"
  shows "length (map f xs) = length its
         \<and> (\<forall>i<length its. \<exists>x. dec (its ! i) zero = Inr x \<and> f x = map f xs ! i)"
  using array_elems_fresh_Inr [of dec zero its xs, OF assms] by simp

lemma findRepos_items:
  assumes sent: "Sent (fst (findRepos w term)) = [sent]"
    and res: "Do w sent = Inr res" "200 \<le> StatusCode res" "StatusCode res < 300"
    and b: "Body res = Inr (JObject (ms1 @ (''items'', JArray its) # ms2))"
    and k: "\<forall>k \<in> fst ` set (ms1 @ ms2). foldName k \<noteq> foldName ''items''"
    and out: "snd (findRepos w term) = (Some out, None)"
  shows "length out = length its
          \<and> (\<forall>i<length its. \<exists>r. decode_struct repo_fields (its ! i) \<lparr>FullName = []\<rparr> = Inr r
                                  \<and> FullName r = out ! i)"
proof -
  from out res b have "\<exists>xs.
      array_elems (decode_struct repo_fields) \<lparr>FullName = []\<rparr> its [] = Inr xs
      \<and> out = map FullName xs"
    by (auto simp: findRepos_after [OF sent] Decode_envelope [OF k] split: sum.splits)
  then obtain xs where
    xs: "array_elems (decode_struct repo_fields) \<lparr>FullName = []\<rparr> its [] = Inr xs"
      "out = map FullName xs"
    by (elim exE conjE)
  from items_decoded [OF xs(1), of FullName] show ?thesis
    unfolding xs(2) .
qed

lemma findUsers_items:
  assumes sent: "Sent (fst (findUsers w term)) = [sent]"
    and res: "Do w sent = Inr res" "200 \<le> StatusCode res" "StatusCode res < 300"
    and b: "Body res = Inr (JObject (ms1 @ (''items'', JArray its) # ms2))"
    and k: "\<forall>k \<in> fst ` set (ms1 @ ms2). foldName k \<noteq> foldName ''items''"
    and out: "snd (findUsers w term) = (Some out, None)"
  shows "length out = length its
          \<and> (\<forall>i<length its. \<exists>u. decode_struct user_fields (its ! i) \<lparr>Login = []\<rparr> = Inr u
                                  \<and> Login u = out ! i)"
proof -
  from out res b have "\<exists>xs.
      array_elems (decode_struct user_fields) \<lparr>Login = []\<rparr> its [] = Inr xs
      \<and> out = map Login xs"
    by (auto simp: findUsers_after [OF sent] Decode_envelope [OF k] split: sum.splits)
  then obtain xs where
    xs: "array_elems (decode_struct user_fields) \<lparr>Login = []\<rparr> its [] = Inr xs"
      "out = map Login xs"
    by (elim exE conjE)
  from items_decoded [OF xs(1), of Login] show ?thesis
    unfolding xs(2) .
qed

lemma found_two_repos:
  "snd (findRepos (answering 200 (Inr two_repos)) term) = (Some [''golang/go'', ''golang/tools''], None)"
  by (simp add: findRepos_after [OF answering_sent(1)] answering_sent(3) Decode_two_repos)

lemma found_one_user:
  "snd (findUsers (answering 200 (Inr one_user)) term) = (Some [''torvalds''], None)"
  by (simp add: findUsers_after [OF answering_sent(2)] answering_sent(3) Decode_one_user)

lemma unreachable_sent:
  "Sent (fst (findRepos unreachable term))
     = [sent_request ''https://api.github.com/search/repositories'' term]"
  "Sent (fst (findUsers unreachable term))
     = [sent_request ''https://api.github.com/search/users'' term]"
  "Do unreachable req = Inl (TransportError ''no such host'')"
  by (simp_all add: findRepos_plain_sent findUsers_plain_sent unreachable_def)

section \<open>The claims\<close>

text \<open>
  Claim C1 says that a 2xx response whose body is a JSON object without an \<open>items\<close>
  field makes the search fail. It does not: for the body \<open>{}\<close> both searches return
  the empty sequence and no error. The decoder skips what the object holds and leaves
  \<open>Items\<close> as it was, and neither function checks that the field was there.
\<close>

theorem empty_object_counterexample:
  "snd (findRepos (answering 200 (Inr (JObject []))) ''golang'') = (Some [], None)
   \<and> snd (findUsers (answering 200 (Inr (JObject []))) ''torvalds'') = (Some [], None)"
proof -
  have r: "Sent (fst (findRepos (answering 200 (Inr (JObject []))) ''golang''))
             = [sent_request ''https://api.github.com/search/repositories'' ''golang'']"
    by (rule findRepos_plain_sent) (simp add: answering_def)
  have u: "Sent (fst (findUsers (answering 200 (Inr (JObject []))) ''torvalds''))
             = [sent_request ''https://api.github.com/search/users'' ''torvalds'']"
    by (rule findUsers_plain_sent) (simp add: answering_def)
  have d: "Decode flds (Inr (JObject [])) v = Inr v" for flds and v :: "'a searchResult"
    by (simp add: Decode_def)
  have "snd (findRepos (answering 200 (Inr (JObject []))) ''golang'') = (Some [], None)"
    unfolding findRepos_after [OF r] by (simp add: answering_def d nil_slice_def)
  moreover
  have "snd (findUsers (answering 200 (Inr (JObject []))) ''torvalds'') = (Some [], None)"
    unfolding findUsers_after [OF u] by (simp add: answering_def d nil_slice_def)
  ultimately show ?thesis by simp
qed

text \<open>
  Claim C1, amended. For a search of either kind, a 2xx response whose body is a JSON
  object with no member naming the field \<open>items\<close> (no key equal to it, also when
  case is ignored) yields the empty result sequence and no error.
\<close>

theorem object_without_items_succeeds:
  assumes "Do w sent = Inr res" and "200 \<le> StatusCode res" and "StatusCode res < 300"
    and "Body res = Inr (JObject ms)"
    and "\<forall>k \<in> fst ` set ms. foldName k \<noteq> foldName ''items''"
  shows "(Sent (fst (findRepos w term)) = [sent] \<longrightarrow> snd (findRepos w term) = (Some [], None))
       \<and> (Sent (fst (findUsers w term)) = [sent] \<longrightarrow> snd (findUsers w term) = (Some [], None))"
  using assms
  by (auto simp: findRepos_after findUsers_after Decode_no_items nil_slice_def)

theorem object_without_items_succeeds_witness:
  "snd (findRepos (answering 200 (Inr (JObject [(''total_count'', JNumber ''0'')]))) ''golang'')
     = (Some [], None)
   \<and> snd (findUsers (answering 200 (Inr (JObject [(''total_count'', JNumber ''0'')]))) ''torvalds'')
     = (Some [], None)"
proof -
  let ?ms = "[(''total_count'', JNumber ''0'')]"
  let ?w = "answering 200 (Inr (JObject ?ms))"
  let ?r = "sent_request ''https://api.github.com/search/repositories'' ''golang''"
  let ?u = "sent_request ''https://api.github.com/search/users'' ''torvalds''"
  have r: "Sent (fst (findRepos ?w ''golang'')) = [?r]"
    by (rule findRepos_plain_sent) (simp add: answering_def)
  have u: "Sent (fst (findUsers ?w ''torvalds'')) = [?u]"
    by (rule findUsers_plain_sent) (simp add: answering_def)
  have dr: "Do ?w ?r = Inr \<lparr>StatusCode = 200, Body = Inr (JObject ?ms)\<rparr>"
    and du: "Do ?w ?u = Inr \<lparr>StatusCode = 200, Body = Inr (JObject ?ms)\<rparr>"
    by (simp_all add: answering_def)
  have keys: "\<forall>k \<in> fst ` set ?ms. foldName k \<noteq> foldName ''items''"
    by simp
  from object_without_items_succeeds [OF dr _ _ _ keys, of "''golang''"] r
       object_without_items_succeeds [OF du _ _ _ keys, of "''torvalds''"] u
  show ?thesis by simp
qed

text \<open>
  Claim C2. For a search of repositories whose 2xx response has the body
  \<open>{"items":[{"full_name":"golang/go"},{"full_name":"golang/tools"}]}\<close>,
  \<open>findRepos\<close> returns exactly \<open>["golang/go", "golang/tools"]\<close>, in this order: the
  key \<open>full_name\<close> of an item names the field tagged \<open>full_Name\<close>.
\<close>

theorem repositories_example:
  assumes "Sent (fst (findRepos w term)) = [sent]" and "Do w sent = Inr res"
    and "200 \<le> StatusCode res" and "StatusCode res < 300"
    and "Body res = Inr (JObject [(''items'',
           JArray [JObject [(''full_name'', JString ''golang/go'')],
                   JObject [(''full_name'', JString ''golang/tools'')]])])"
  shows "snd (findRepos w term) = (Some [''golang/go'', ''golang/tools''], None)"
  using assms
  by (simp add: findRepos_after Decode_def searchResult_fields_def repo_fields_def
      lookup_field_single nil_slice_def foldName_tags del: foldName.simps)

theorem repositories_example_witness:
  "snd (findRepos (answering 200 (Inr (JObject [(''items'',
           JArray [JObject [(''full_name'', JString ''golang/go'')],
                   JObject [(''full_name'', JString ''golang/tools'')]])]))) ''golang'')
   = (Some [''golang/go'', ''golang/tools''], None)"
proof -
  let ?b = "Inr (JObject [(''items'',
           JArray [JObject [(''full_name'', JString ''golang/go'')],
                   JObject [(''full_name'', JString ''golang/tools'')]])])"
  let ?r = "sent_request ''https://api.github.com/search/repositories'' ''golang''"
  have r: "Sent (fst (findRepos (answering 200 ?b) ''golang'')) = [?r]"
    by (rule findRepos_plain_sent) (simp add: answering_def)
  have d: "Do (answering 200 ?b) ?r = Inr \<lparr>StatusCode = 200, Body = ?b\<rparr>"
    by (simp add: answering_def)
  from repositories_example [OF r d] show ?thesis by simp
qed

text \<open>
  Claim C3 says that the one error of every failure has the message
  \<open>could not complete search\<close>. The program's message is another: a search answered
  with status 404 returns the error \<open>failed to connect to github\<close>.
\<close>

theorem error_message_counterexample:
  "snd (snd (findRepos (answering 404 (Inr (JObject []))) ''golang''))
     = Some (errors_New ''failed to connect to github'')
   \<and> errors_New ''failed to connect to github'' \<noteq> errors_New ''could not complete search''"
proof -
  have r: "Sent (fst (findRepos (answering 404 (Inr (JObject []))) ''golang''))
             = [sent_request ''https://api.github.com/search/repositories'' ''golang'']"
    by (rule findRepos_plain_sent) (simp add: answering_def)
  have "snd (snd (findRepos (answering 404 (Inr (JObject []))) ''golang''))
     = Some (errors_New ''failed to connect to github'')"
    unfolding findRepos_after [OF r] by (simp add: answering_def)
  then show ?thesis by (simp add: errors_New_def)
qed

text \<open>
  Claim C3, amended. For a search of either kind, every cause of failure (no request
  built, the transport failing, a status outside [200, 300), the body not decoding)
  produces the same error, with the message \<open>failed to connect to github\<close>, and an
  error the search returns is never any other: the cause cannot be told from it.
\<close>

theorem one_error_for_every_cause:
  "(NewRequest w MethodGet ''https://api.github.com/search/repositories'' = Inl e \<longrightarrow>
      snd (findRepos w term) = (None, Some (errors_New ''failed to connect to github'')))
   \<and> (NewRequest w MethodGet ''https://api.github.com/search/users'' = Inl e \<longrightarrow>
      snd (findUsers w term) = (None, Some (errors_New ''failed to connect to github'')))
   \<and> (Sent (fst (findRepos w term)) = [sent] \<and> Do w sent = Inl e \<longrightarrow>
      snd (findRepos w term) = (None, Some (errors_New ''failed to connect to github'')))
   \<and> (Sent (fst (findUsers w term)) = [sent] \<and> Do w sent = Inl e \<longrightarrow>
      snd (findUsers w term) = (None, Some (errors_New ''failed to connect to github'')))
   \<and> (Sent (fst (findRepos w term)) = [sent] \<and> Do w sent = Inr res
        \<and> (StatusCode res < 200 \<or> 300 \<le> StatusCode res) \<longrightarrow>
      snd (findRepos w term) = (None, Some (errors_New ''failed to connect to github'')))
   \<and> (Sent (fst (findUsers w term)) = [sent] \<and> Do w sent = Inr res
        \<and> (StatusCode res < 200 \<or> 300 \<le> StatusCode res) \<longrightarrow>
      snd (findUsers w term) = (None, Some (errors_New ''failed to connect to github'')))
   \<and> (Sent (fst (findRepos w term)) = [sent] \<and> Do w sent = Inr res
        \<and> 200 \<le> StatusCode res \<and> StatusCode res < 300
        \<and> Decode (searchResult_fields repo_fields \<lparr>FullName = []\<rparr>) (Body res)
              \<lparr>Items = nil_slice\<rparr> = Inl e \<longrightarrow>
      snd (findRepos w term) = (None, Some (errors_New ''failed to connect to github'')))
   \<and> (Sent (fst (findUsers w term)) = [sent] \<and> Do w sent = Inr res
        \<and> 200 \<le> StatusCode res \<and> StatusCode res < 300
        \<and> Decode (searchResult_fields user_fields \<lparr>Login = []\<rparr>) (Body res)
              \<lparr>Items = nil_slice\<rparr> = Inl e \<longrightarrow>
      snd (findUsers w term) = (None, Some (errors_New ''failed to connect to github'')))
   \<and> (snd (snd (findRepos w term)) = Some e \<longrightarrow> e = errors_New ''failed to connect to github'')
   \<and> (snd (snd (findUsers w term)) = Some e \<longrightarrow> e = errors_New ''failed to connect to github'')"
proof -
  have a: "NewRequest w MethodGet ''https://api.github.com/search/repositories'' = Inl e \<longrightarrow>
      snd (findRepos w term) = (None, Some (errors_New ''failed to connect to github''))"
    by (simp add: findRepos_def)
  have b: "NewRequest w MethodGet ''https://api.github.com/search/users'' = Inl e \<longrightarrow>
      snd (findUsers w term) = (None, Some (errors_New ''failed to connect to github''))"
    by (simp add: findUsers_def)
  have c: "snd (snd (findRepos w term)) = Some e \<longrightarrow> e = errors_New ''failed to connect to github''"
    using findRepos_sent_cases [of w "term"]
    by (auto simp: findRepos_after split: sum.splits if_splits)
  have d: "snd (snd (findUsers w term)) = Some e \<longrightarrow> e = errors_New ''failed to connect to github''"
    using findUsers_sent_cases [of w "term"]
    by (auto simp: findUsers_after split: sum.splits if_splits)
  show ?thesis
    by (intro conjI a b c d) (simp_all add: findRepos_after findUsers_after)
qed

theorem one_error_for_every_cause_witness:
  "snd (findRepos no_request ''golang'') = (None, Some (errors_New ''failed to connect to github''))
   \<and> snd (findUsers no_request ''torvalds'')
        = (None, Some (errors_New ''failed to connect to github''))
   \<and> snd (findRepos unreachable ''golang'')
        = (None, Some (errors_New ''failed to connect to github''))
   \<and> snd (findUsers unreachable ''torvalds'')
        = (None, Some (errors_New ''failed to connect to github''))
   \<and> snd (findRepos (answering 500 (Inr JNull)) ''golang'')
        = (None, Some (errors_New ''failed to connect to github''))
   \<and> snd (findUsers (answering 404 (Inr JNull)) ''torvalds'')
        = (None, Some (errors_New ''failed to connect to github''))
   \<and> snd (findRepos (answering 200 (Inl (SyntaxError ''unexpected end of JSON input''))) ''golang'')
        = (None, Some (errors_New ''failed to connect to github''))
   \<and> snd (findUsers (answering 200 (Inr (JArray []))) ''torvalds'')
        = (None, Some (errors_New ''failed to connect to github''))
   \<and> snd (snd (findRepos unreachable ''golang'')) \<noteq> Some (errors_New ''could not complete search'')
   \<and> snd (snd (findUsers unreachable ''torvalds'')) \<noteq> Some (errors_New ''could not complete search'')"
proof -
  let ?r = "sent_request ''https://api.github.com/search/repositories'' ''golang''"
  let ?u = "sent_request ''https://api.github.com/search/users'' ''torvalds''"
  let ?eof = "SyntaxError ''unexpected end of JSON input''"
  have n: "NewRequest no_request MethodGet url = Inl (errorString ''net/http: invalid method'')"
    for url
    by (simp add: no_request_def)
  have bad: "StatusCode \<lparr>StatusCode = 500, Body = b\<rparr> < 200
             \<or> 300 \<le> StatusCode \<lparr>StatusCode = 500, Body = b\<rparr>"
    "StatusCode \<lparr>StatusCode = 404, Body = b\<rparr> < 200
             \<or> 300 \<le> StatusCode \<lparr>StatusCode = 404, Body = b\<rparr>" for b :: body
    by simp_all
  have ok: "(200::int) \<le> StatusCode \<lparr>StatusCode = 200, Body = b\<rparr>"
    "StatusCode \<lparr>StatusCode = 200, Body = b\<rparr> < 300" for b :: body
    by simp_all
  have d1: "Decode (searchResult_fields repo_fields \<lparr>FullName = []\<rparr>)
              (Body \<lparr>StatusCode = 200, Body = Inl ?eof\<rparr>) \<lparr>Items = nil_slice\<rparr> = Inl ?eof"
    by (simp add: Decode_def)
  have d2: "Decode (searchResult_fields user_fields \<lparr>Login = []\<rparr>)
              (Body \<lparr>StatusCode = 200, Body = Inr (JArray [])\<rparr>) \<lparr>Items = nil_slice\<rparr>
            = Inl (UnmarshalTypeError ''array'')"
    by (simp add: Decode_def)
  have differ: "errors_New ''could not complete search'' \<noteq> errors_New ''failed to connect to github''"
    by (simp add: errors_New_def)
  have 1: "snd (findRepos no_request ''golang'')
          = (None, Some (errors_New ''failed to connect to github''))"
    by (rule one_error_for_every_cause [THEN conjunct1, THEN mp]) (rule n)
  have 2: "snd (findUsers no_request ''torvalds'')
          = (None, Some (errors_New ''failed to connect to github''))"
    by (rule one_error_for_every_cause [THEN conjunct2, THEN conjunct1, THEN mp]) (rule n)
  have 3: "snd (findRepos unreachable ''golang'')
          = (None, Some (errors_New ''failed to connect to github''))"
    by (rule one_error_for_every_cause
          [THEN conjunct2, THEN conjunct2, THEN conjunct1, THEN mp])
       (rule conjI, rule unreachable_sent(1), rule unreachable_sent(3))
  have 4: "snd (findUsers unreachable ''torvalds'')
          = (None, Some (errors_New ''failed to connect to github''))"
    by (rule one_error_for_every_cause
          [THEN conjunct2, THEN conjunct2, THEN conjunct2, THEN conjunct1, THEN mp])
       (rule conjI, rule unreachable_sent(2), rule unreachable_sent(3))
  have 5: "snd (findRepos (answering 500 (Inr JNull)) ''golang'')
          = (None, Some (errors_New ''failed to connect to github''))"
    by (rule one_error_for_every_cause
          [THEN conjunct2, THEN conjunct2, THEN conjunct2, THEN conjunct2, THEN conjunct1,
           THEN mp])
       (rule conjI, rule answering_sent(1), rule conjI, rule answering_sent(3), rule bad(1))
  have 6: "snd (findUsers (answering 404 (Inr JNull)) ''torvalds'')
          = (None, Some (errors_New ''failed to connect to github''))"
    by (rule one_error_for_every_cause
          [THEN conjunct2, THEN conjunct2, THEN conjunct2, THEN conjunct2, THEN conjunct2,
           THEN conjunct1, THEN mp])
       (rule conjI, rule answering_sent(2), rule conjI, rule answering_sent(3), rule bad(2))
  have 7: "snd (findRepos (answering 200 (Inl ?eof)) ''golang'')
          = (None, Some (errors_New ''failed to connect to github''))"
    by (rule one_error_for_every_cause
          [THEN conjunct2, THEN conjunct2, THEN conjunct2, THEN conjunct2, THEN conjunct2,
           THEN conjunct2, THEN conjunct1, THEN mp])
       (rule conjI, rule answering_sent(1), rule conjI, rule answering_sent(3), rule conjI, rule ok(1), rule conjI, rule ok(2), rule d1)
  have 8: "snd (findUsers (answering 200 (Inr (JArray []))) ''torvalds'')
          = (None, Some (errors_New ''failed to connect to github''))"
    by (rule one_error_for_every_cause
          [THEN conjunct2, THEN conjunct2, THEN conjunct2, THEN conjunct2, THEN conjunct2,
           THEN conjunct2, THEN conjunct2, THEN conjunct1, THEN mp])
       (rule conjI, rule answering_sent(2), rule conjI, rule answering_sent(3), rule conjI, rule ok(1), rule conjI, rule ok(2), rule d2)
  have 9: "snd (snd (findRepos unreachable ''golang''))
             \<noteq> Some (errors_New ''could not complete search'')"
    using one_error_for_every_cause
          [of unreachable "errors_New ''could not complete search''" "''golang''",
           THEN conjunct2, THEN conjunct2, THEN conjunct2, THEN conjunct2, THEN conjunct2,
           THEN conjunct2, THEN conjunct2, THEN conjunct2, THEN conjunct1] differ
    by blast
  have 10: "snd (snd (findUsers unreachable ''torvalds''))
             \<noteq> Some (errors_New ''could not complete search'')"
    using one_error_for_every_cause
          [of unreachable "errors_New ''could not complete search''" "''torvalds''",
           THEN conjunct2, THEN conjunct2, THEN conjunct2, THEN conjunct2, THEN conjunct2,
           THEN conjunct2, THEN conjunct2, THEN conjunct2, THEN conjunct2] differ
    by blast
  from 1 2 3 4 5 6 7 8 9 10 show ?thesis by (intro conjI)
qed

text \<open>
  Claim C4. For a search of either kind whose response decodes, the sequence returned
  is as long as the list of items of the decoded envelope, and its i-th string is the
  extracted field of the i-th item: the order is kept, nothing is dropped or doubled.
  The first two parts state it for the struct that \<open>Decode\<close> fills, the last two
  for the JSON text of an envelope \<open>{..., "items": [...], ...}\<close>: the i-th string is
  what the i-th element of the array decodes to.
\<close>

theorem output_follows_items:
  assumes "Do w sent = Inr res" and "200 \<le> StatusCode res" and "StatusCode res < 300"
  shows "(Sent (fst (findRepos w term)) = [sent]
          \<and> Decode (searchResult_fields repo_fields \<lparr>FullName = []\<rparr>) (Body res)
               \<lparr>Items = nil_slice\<rparr> = Inr repos \<longrightarrow>
          (\<exists>out. snd (findRepos w term) = (Some out, None)
             \<and> length out = length (elems (Items repos))
             \<and> (\<forall>i<length out. out ! i = FullName (elems (Items repos) ! i))))
       \<and> (Sent (fst (findUsers w term)) = [sent]
          \<and> Decode (searchResult_fields user_fields \<lparr>Login = []\<rparr>) (Body res)
               \<lparr>Items = nil_slice\<rparr> = Inr users \<longrightarrow>
          (\<exists>out. snd (findUsers w term) = (Some out, None)
             \<and> length out = length (elems (Items users))
             \<and> (\<forall>i<length out. out ! i = Login (elems (Items users) ! i))))
       \<and> (Sent (fst (findRepos w term)) = [sent]
          \<and> Body res = Inr (JObject (ms1 @ (''items'', JArray its) # ms2))
          \<and> (\<forall>k \<in> fst ` set (ms1 @ ms2). foldName k \<noteq> foldName ''items'')
          \<and> snd (findRepos w term) = (Some out, None) \<longrightarrow>
          length out = length its
          \<and> (\<forall>i<length its. \<exists>r. decode_struct repo_fields (its ! i) \<lparr>FullName = []\<rparr> = Inr r
                                  \<and> FullName r = out ! i))
       \<and> (Sent (fst (findUsers w term)) = [sent]
          \<and> Body res = Inr (JObject (ms1 @ (''items'', JArray its) # ms2))
          \<and> (\<forall>k \<in> fst ` set (ms1 @ ms2). foldName k \<noteq> foldName ''items'')
          \<and> snd (findUsers w term) = (Some out, None) \<longrightarrow>
          length out = length its
          \<and> (\<forall>i<length its. \<exists>u. decode_struct user_fields (its ! i) \<lparr>Login = []\<rparr> = Inr u
                                  \<and> Login u = out ! i))"
proof -
  have 1: "Sent (fst (findRepos w term)) = [sent]
          \<and> Decode (searchResult_fields repo_fields \<lparr>FullName = []\<rparr>) (Body res)
               \<lparr>Items = nil_slice\<rparr> = Inr repos \<longrightarrow>
          (\<exists>out. snd (findRepos w term) = (Some out, None)
             \<and> length out = length (elems (Items repos))
             \<and> (\<forall>i<length out. out ! i = FullName (elems (Items repos) ! i)))"
    using assms by (auto simp: findRepos_after)
  have 2: "Sent (fst (findUsers w term)) = [sent]
          \<and> Decode (searchResult_fields user_fields \<lparr>Login = []\<rparr>) (Body res)
               \<lparr>Items = nil_slice\<rparr> = Inr users \<longrightarrow>
          (\<exists>out. snd (findUsers w term) = (Some out, None)
             \<and> length out = length (elems (Items users))
             \<and> (\<forall>i<length out. out ! i = Login (elems (Items users) ! i)))"
    using assms by (auto simp: findUsers_after)
  have 3: "Sent (fst (findRepos w term)) = [sent]
          \<and> Body res = Inr (JObject (ms1 @ (''items'', JArray its) # ms2))
          \<and> (\<forall>k \<in> fst ` set (ms1 @ ms2). foldName k \<noteq> foldName ''items'')
          \<and> snd (findRepos w term) = (Some out, None) \<longrightarrow>
          length out = length its
          \<and> (\<forall>i<length its. \<exists>r. decode_struct repo_fields (its ! i) \<lparr>FullName = []\<rparr> = Inr r
                                  \<and> FullName r = out ! i)"
  proof (intro impI, elim conjE)
    assume a: "Sent (fst (findRepos w term)) = [sent]"
      and b: "Body res = Inr (JObject (ms1 @ (''items'', JArray its) # ms2))"
      and c: "\<forall>k \<in> fst ` set (ms1 @ ms2). foldName k \<noteq> foldName ''items''"
      and d: "snd (findRepos w term) = (Some out, None)"
    show "length out = length its
          \<and> (\<forall>i<length its. \<exists>r. decode_struct repo_fields (its ! i) \<lparr>FullName = []\<rparr> = Inr r
                                  \<and> FullName r = out ! i)"
      by (rule findRepos_items [OF a assms b c d])
  qed
  have 4: "Sent (fst (findUsers w term)) = [sent]
          \<and> Body res = Inr (JObject (ms1 @ (''items'', JArray its) # ms2))
          \<and> (\<forall>k \<in> fst ` set (ms1 @ ms2). foldName k \<noteq> foldName ''items'')
          \<and> snd (findUsers w term) = (Some out, None) \<longrightarrow>
          length out = length its
          \<and> (\<forall>i<length its. \<exists>u. decode_struct user_fields (its ! i) \<lparr>Login = []\<rparr> = Inr u
                                  \<and> Login u = out ! i)"
  proof (intro impI, elim conjE)
    assume a: "Sent (fst (findUsers w term)) = [sent]"
      and b: "Body res = Inr (JObject (ms1 @ (''items'', JArray its) # ms2))"
      and c: "\<forall>k \<in> fst ` set (ms1 @ ms2). foldName k \<noteq> foldName ''items''"
      and d: "snd (findUsers w term) = (Some out, None)"
    show "length out = length its
          \<and> (\<forall>i<length its. \<exists>u. decode_struct user_fields (its ! i) \<lparr>Login = []\<rparr> = Inr u
                                  \<and> Login u = out ! i)"
      by (rule findUsers_items [OF a assms b c d])
  qed
  from 1 2 3 4 show ?thesis by (intro conjI)
qed

theorem output_follows_items_witness:
  "(\<exists>out. snd (findRepos (answering 200 (Inr two_repos)) ''golang'') = (Some out, None)
      \<and> length out = length [\<lparr>FullName = ''golang/go''\<rparr>, \<lparr>FullName = ''golang/tools''\<rparr>]
      \<and> (\<forall>i<length out.
            out ! i = FullName ([\<lparr>FullName = ''golang/go''\<rparr>, \<lparr>FullName = ''golang/tools''\<rparr>] ! i)))
   \<and> (\<exists>out. snd (findUsers (answering 200 (Inr one_user)) ''torvalds'') = (Some out, None)
      \<and> length out = length [\<lparr>Login = ''torvalds''\<rparr>]
      \<and> (\<forall>i<length out. out ! i = Login ([\<lparr>Login = ''torvalds''\<rparr>] ! i)))
   \<and> (\<exists>r. decode_struct repo_fields (JObject [(''full_name'', JString ''golang/tools'')])
               \<lparr>FullName = []\<rparr> = Inr r
          \<and> FullName r = [''golang/go'', ''golang/tools''] ! 1)
   \<and> (\<exists>u. decode_struct user_fields (JObject [(''login'', JString ''torvalds'')])
               \<lparr>Login = []\<rparr> = Inr u
          \<and> Login u = [''torvalds''] ! 0)"
proof -
  have ok: "(200::int) \<le> StatusCode \<lparr>StatusCode = 200, Body = b\<rparr>"
    "StatusCode \<lparr>StatusCode = 200, Body = b\<rparr> < 300" for b :: body
    by simp_all
  note T = output_follows_items [OF answering_sent(3) ok]
  have r: "Sent (fst (findRepos (answering 200 (Inr two_repos)) ''golang''))
             = [sent_request ''https://api.github.com/search/repositories'' ''golang'']
           \<and> Decode (searchResult_fields repo_fields \<lparr>FullName = []\<rparr>)
                (Body \<lparr>StatusCode = 200, Body = Inr two_repos\<rparr>) \<lparr>Items = nil_slice\<rparr>
              = Inr \<lparr>Items = \<lparr>elems = [\<lparr>FullName = ''golang/go''\<rparr>, \<lparr>FullName = ''golang/tools''\<rparr>],
                      spare = []\<rparr>\<rparr>"
    by (simp add: answering_sent Decode_two_repos)
  have u: "Sent (fst (findUsers (answering 200 (Inr one_user)) ''torvalds''))
             = [sent_request ''https://api.github.com/search/users'' ''torvalds'']
           \<and> Decode (searchResult_fields user_fields \<lparr>Login = []\<rparr>)
                (Body \<lparr>StatusCode = 200, Body = Inr one_user\<rparr>) \<lparr>Items = nil_slice\<rparr>
              = Inr \<lparr>Items = \<lparr>elems = [\<lparr>Login = ''torvalds''\<rparr>], spare = []\<rparr>\<rparr>"
    by (simp add: answering_sent Decode_one_user)
  have r': "Sent (fst (findRepos (answering 200 (Inr two_repos)) ''golang''))
             = [sent_request ''https://api.github.com/search/repositories'' ''golang'']
           \<and> Body \<lparr>StatusCode = 200, Body = Inr two_repos\<rparr>
             = Inr (JObject ([] @ (''items'',
                 JArray [JObject [(''full_name'', JString ''golang/go'')],
                         JObject [(''full_name'', JString ''golang/tools'')]]) # []))
           \<and> (\<forall>k \<in> fst ` set ([] @ [] :: (string \<times> json) list). foldName k \<noteq> foldName ''items'')
           \<and> snd (findRepos (answering 200 (Inr two_repos)) ''golang'')
             = (Some [''golang/go'', ''golang/tools''], None)"
    by (simp add: answering_sent found_two_repos) (simp add: two_repos_def)
  have u': "Sent (fst (findUsers (answering 200 (Inr one_user)) ''torvalds''))
             = [sent_request ''https://api.github.com/search/users'' ''torvalds'']
           \<and> Body \<lparr>StatusCode = 200, Body = Inr one_user\<rparr>
             = Inr (JObject ([] @ (''items'',
                 JArray [JObject [(''login'', JString ''torvalds'')]]) # []))
           \<and> (\<forall>k \<in> fst ` set ([] @ [] :: (string \<times> json) list). foldName k \<noteq> foldName ''items'')
           \<and> snd (findUsers (answering 200 (Inr one_user)) ''torvalds'')
             = (Some [''torvalds''], None)"
    by (simp add: answering_sent found_one_user) (simp add: one_user_def)
  from T [THEN conjunct1, THEN mp, OF r]
  have 1: "\<exists>out. snd (findRepos (answering 200 (Inr two_repos)) ''golang'') = (Some out, None)
      \<and> length out = length [\<lparr>FullName = ''golang/go''\<rparr>, \<lparr>FullName = ''golang/tools''\<rparr>]
      \<and> (\<forall>i<length out.
            out ! i = FullName ([\<lparr>FullName = ''golang/go''\<rparr>, \<lparr>FullName = ''golang/tools''\<rparr>] ! i))"
    by simp
  from T [THEN conjunct2, THEN conjunct1, THEN mp, OF u]
  have 2: "\<exists>out. snd (findUsers (answering 200 (Inr one_user)) ''torvalds'') = (Some out, None)
      \<and> length out = length [\<lparr>Login = ''torvalds''\<rparr>]
      \<and> (\<forall>i<length out. out ! i = Login ([\<lparr>Login = ''torvalds''\<rparr>] ! i))"
    by simp
  from T [THEN conjunct2, THEN conjunct2, THEN conjunct1, THEN mp, OF r',
          THEN conjunct2, THEN spec, of 1]
  have 3: "\<exists>r. decode_struct repo_fields (JObject [(''full_name'', JString ''golang/tools'')])
               \<lparr>FullName = []\<rparr> = Inr r
          \<and> FullName r = [''golang/go'', ''golang/tools''] ! 1"
    by simp
  from T [THEN conjunct2, THEN conjunct2, THEN conjunct2, THEN mp, OF u',
          THEN conjunct2, THEN spec, of 0]
  have 4: "\<exists>u. decode_struct user_fields (JObject [(''login'', JString ''torvalds'')])
               \<lparr>Login = []\<rparr> = Inr u
          \<and> Login u = [''torvalds''] ! 0"
    by simp
  from 1 2 3 4 show ?thesis by (intro conjI)
qed

text \<open>
  Claim C5. For a search of either kind, a response whose status code lies outside
  [200, 300) (404 or 500, say) makes the search fail with the error of the program,
  whatever the body of the response holds.
\<close>

theorem status_outside_2xx_fails:
  assumes "Do w sent = Inr res" and "StatusCode res < 200 \<or> 300 \<le> StatusCode res"
  shows "(Sent (fst (findRepos w term)) = [sent] \<longrightarrow>
            snd (findRepos w term) = (None, Some (errors_New ''failed to connect to github'')))
       \<and> (Sent (fst (findUsers w term)) = [sent] \<longrightarrow>
            snd (findUsers w term) = (None, Some (errors_New ''failed to connect to github'')))"
  using assms by (auto simp: findRepos_after findUsers_after)

theorem status_outside_2xx_fails_witness:
  "snd (findRepos (answering 404 (Inr (JObject [(''items'', JArray [])]))) ''golang'')
     = (None, Some (errors_New ''failed to connect to github''))
   \<and> snd (findUsers (answering 500 (Inr (JObject [(''items'', JArray [])]))) ''torvalds'')
     = (None, Some (errors_New ''failed to connect to github''))"
proof -
  let ?b = "Inr (JObject [(''items'', JArray [])])"
  have r: "Sent (fst (findRepos (answering 404 ?b) ''golang''))
             = [sent_request ''https://api.github.com/search/repositories'' ''golang'']"
    by (rule findRepos_plain_sent) (simp add: answering_def)
  have u: "Sent (fst (findUsers (answering 500 ?b) ''torvalds''))
             = [sent_request ''https://api.github.com/search/users'' ''torvalds'']"
    by (rule findUsers_plain_sent) (simp add: answering_def)
  have dr: "Do (answering 404 ?b) (sent_request ''https://api.github.com/search/repositories'' ''golang'')
             = Inr \<lparr>StatusCode = 404, Body = ?b\<rparr>"
    by (simp add: answering_def)
  have du: "Do (answering 500 ?b) (sent_request ''https://api.github.com/search/users'' ''torvalds'')
             = Inr \<lparr>StatusCode = 500, Body = ?b\<rparr>"
    by (simp add: answering_def)
  from status_outside_2xx_fails [OF dr, of "''golang''"] r
       status_outside_2xx_fails [OF du, of "''torvalds''"] u
  show ?thesis by simp
qed

text \<open>
  Claim C6. For a search of either kind, a 2xx response whose body decodes to an
  envelope with an empty list of items yields the empty result sequence and no error.
\<close>

theorem empty_items_give_empty_result:
  assumes "Do w sent = Inr res" and "200 \<le> StatusCode res" and "StatusCode res < 300"
  shows "(Sent (fst (findRepos w term)) = [sent]
          \<and> Decode (searchResult_fields repo_fields \<lparr>FullName = []\<rparr>) (Body res)
               \<lparr>Items = nil_slice\<rparr> = Inr repos
          \<and> elems (Items repos) = [] \<longrightarrow>
          snd (findRepos w term) = (Some [], None))
       \<and> (Sent (fst (findUsers w term)) = [sent]
          \<and> Decode (searchResult_fields user_fields \<lparr>Login = []\<rparr>) (Body res)
               \<lparr>Items = nil_slice\<rparr> = Inr users
          \<and> elems (Items users) = [] \<longrightarrow>
          snd (findUsers w term) = (Some [], None))"
  using assms by (auto simp: findRepos_after findUsers_after)

theorem empty_items_give_empty_result_witness:
  "snd (findRepos (answering 200 (Inr (JObject [(''items'', JArray [])]))) ''golang'')
     = (Some [], None)
   \<and> snd (findUsers (answering 200 (Inr (JObject [(''items'', JArray [])]))) ''torvalds'')
     = (Some [], None)"
proof -
  let ?b = "Inr (JObject [(''items'', JArray [])])"
  have ok: "(200::int) \<le> StatusCode \<lparr>StatusCode = 200, Body = b\<rparr>"
    "StatusCode \<lparr>StatusCode = 200, Body = b\<rparr> < 300" for b :: body
    by simp_all
  have r: "Sent (fst (findRepos (answering 200 ?b) ''golang''))
             = [sent_request ''https://api.github.com/search/repositories'' ''golang'']
           \<and> Decode (searchResult_fields repo_fields \<lparr>FullName = []\<rparr>)
                (Body \<lparr>StatusCode = 200, Body = ?b\<rparr>) \<lparr>Items = nil_slice\<rparr>
              = Inr \<lparr>Items = nil_slice\<rparr>
           \<and> elems (Items \<lparr>Items = nil_slice :: repo slice\<rparr>) = []"
    by (simp add: answering_sent Decode_no_item) (simp add: nil_slice_def)
  have u: "Sent (fst (findUsers (answering 200 ?b) ''torvalds''))
             = [sent_request ''https://api.github.com/search/users'' ''torvalds'']
           \<and> Decode (searchResult_fields user_fields \<lparr>Login = []\<rparr>)
                (Body \<lparr>StatusCode = 200, Body = ?b\<rparr>) \<lparr>Items = nil_slice\<rparr>
              = Inr \<lparr>Items = nil_slice\<rparr>
           \<and> elems (Items \<lparr>Items = nil_slice :: user slice\<rparr>) = []"
    by (simp add: answering_sent Decode_no_item) (simp add: nil_slice_def)
  from empty_items_give_empty_result [OF answering_sent(3) ok, THEN conjunct1, THEN mp, OF r]
       empty_items_give_empty_result [OF answering_sent(3) ok, THEN conjunct2, THEN mp, OF u]
  show ?thesis by (intro conjI)
qed



text \<open>
  Claim C8. For every search term (a space or an \<open>&\<close> in it included), the request
  handed to the network has the query string \<open>q=\<close> followed by the term escaped once:
  parsing the query string gives the single parameter \<open>q\<close> with the term itself as
  its one value. The request comes from \<open>http.NewRequest\<close> for a URL without a query,
  so its \<open>RawQuery\<close> is empty at first.
\<close>

theorem term_is_the_single_query_parameter:
  assumes "RawQuery (URL req) = []"
  shows "(NewRequest w MethodGet ''https://api.github.com/search/repositories'' = Inr req \<longrightarrow>
            (\<exists>sent. Sent (fst (findRepos w term)) = [sent]
               \<and> Method sent = Method req \<and> Location (URL sent) = Location (URL req)
               \<and> RawQuery (URL sent) = ''q='' @ QueryEscape term
               \<and> ParseQuery (RawQuery (URL sent)) = ([(''q'', [term])], None)))
       \<and> (NewRequest w MethodGet ''https://api.github.com/search/users'' = Inr req \<longrightarrow>
            (\<exists>sent. Sent (fst (findUsers w term)) = [sent]
               \<and> Method sent = Method req \<and> Location (URL sent) = Location (URL req)
               \<and> RawQuery (URL sent) = ''q='' @ QueryEscape term
               \<and> ParseQuery (RawQuery (URL sent)) = ([(''q'', [term])], None)))
       \<and> QueryUnescape (QueryEscape term) = Inr term"
proof (intro conjI impI)
  assume "NewRequest w MethodGet ''https://api.github.com/search/repositories'' = Inr req"
  then have "Sent (fst (findRepos w term)) =
      [req\<lparr>URL := (URL req)\<lparr>RawQuery := ''q='' @ QueryEscape term\<rparr>\<rparr>]"
    by (simp add: findRepos_def Let_def Encode_plain [OF assms] split: sum.splits)
  then show "\<exists>sent. Sent (fst (findRepos w term)) = [sent]
               \<and> Method sent = Method req \<and> Location (URL sent) = Location (URL req)
               \<and> RawQuery (URL sent) = ''q='' @ QueryEscape term
               \<and> ParseQuery (RawQuery (URL sent)) = ([(''q'', [term])], None)"
    by (simp add: ParseQuery_q del: append.simps)
next
  assume "NewRequest w MethodGet ''https://api.github.com/search/users'' = Inr req"
  then have "Sent (fst (findUsers w term)) =
      [req\<lparr>URL := (URL req)\<lparr>RawQuery := ''q='' @ QueryEscape term\<rparr>\<rparr>]"
    by (simp add: findUsers_def Let_def Encode_plain [OF assms] split: sum.splits)
  then show "\<exists>sent. Sent (fst (findUsers w term)) = [sent]
               \<and> Method sent = Method req \<and> Location (URL sent) = Location (URL req)
               \<and> RawQuery (URL sent) = ''q='' @ QueryEscape term
               \<and> ParseQuery (RawQuery (URL sent)) = ([(''q'', [term])], None)"
    by (simp add: ParseQuery_q del: append.simps)
next
  show "QueryUnescape (QueryEscape term) = Inr term" by (rule unescape_escape)
qed

theorem term_is_the_single_query_parameter_witness:
  "Sent (fst (findRepos unreachable ''go lang&x''))
     = [\<lparr>Method = ''GET'', URL = \<lparr>Location = ''https://api.github.com/search/repositories'',
                                   RawQuery = ''q=go+lang%26x''\<rparr>\<rparr>]
   \<and> Sent (fst (findUsers unreachable ''go lang&x''))
     = [\<lparr>Method = ''GET'', URL = \<lparr>Location = ''https://api.github.com/search/users'',
                                   RawQuery = ''q=go+lang%26x''\<rparr>\<rparr>]
   \<and> ParseQuery ''q=go+lang%26x'' = ([(''q'', [''go lang&x''])], None)"
proof -
  let ?r = "\<lparr>Method = ''GET'', URL = \<lparr>Location = ''https://api.github.com/search/repositories'',
                                   RawQuery = []\<rparr>\<rparr>"
  let ?u = "\<lparr>Method = ''GET'', URL = \<lparr>Location = ''https://api.github.com/search/users'',
                                   RawQuery = []\<rparr>\<rparr>"
  have e: "RawQuery (URL ?r) = []" "RawQuery (URL ?u) = []" by simp_all
  have n: "NewRequest unreachable MethodGet ''https://api.github.com/search/repositories'' = Inr ?r"
    "NewRequest unreachable MethodGet ''https://api.github.com/search/users'' = Inr ?u"
    by (simp_all add: unreachable_def plain_request_def MethodGet_def)
  have req_eq: "sent = \<lparr>Method = Method sent,
                  URL = \<lparr>Location = Location (URL sent), RawQuery = RawQuery (URL sent)\<rparr>\<rparr>"
    for sent :: request
    by simp
  from term_is_the_single_query_parameter [OF e(1), THEN conjunct1, THEN mp, OF n(1),
         of "''go lang&x''"]
  obtain sent where s: "Sent (fst (findRepos unreachable ''go lang&x'')) = [sent]"
    "Method sent = Method ?r" "Location (URL sent) = Location (URL ?r)"
    "RawQuery (URL sent) = ''q='' @ QueryEscape ''go lang&x''"
    "ParseQuery (RawQuery (URL sent)) = ([(''q'', [''go lang&x''])], None)"
    by blast
  from term_is_the_single_query_parameter [OF e(2), THEN conjunct2, THEN conjunct1, THEN mp,
         OF n(2), of "''go lang&x''"]
  obtain sent' where s': "Sent (fst (findUsers unreachable ''go lang&x'')) = [sent']"
    "Method sent' = Method ?u" "Location (URL sent') = Location (URL ?u)"
    "RawQuery (URL sent') = ''q='' @ QueryEscape ''go lang&x''"
    by blast
  have q: "''q='' @ QueryEscape ''go lang&x'' = ''q=go+lang%26x''"
    by (simp add: QueryEscape_example)
  have "sent = \<lparr>Method = ''GET'', URL = \<lparr>Location = ''https://api.github.com/search/repositories'',
                                   RawQuery = ''q=go+lang%26x''\<rparr>\<rparr>"
    using s(2-4) q by (subst req_eq) simp
  moreover
  have "sent' = \<lparr>Method = ''GET'', URL = \<lparr>Location = ''https://api.github.com/search/users'',
                                   RawQuery = ''q=go+lang%26x''\<rparr>\<rparr>"
    using s'(2-4) q by (subst req_eq) simp
  moreover
  have "ParseQuery ''q=go+lang%26x'' = ([(''q'', [''go lang&x''])], None)"
    using s(4,5) q by simp
  ultimately show ?thesis using s(1) s'(1) by simp
qed

text \<open>
  Claim C9. For a search of either kind, whenever the search returns an error, the
  slice it returns with it is nil: no partial list of extracted strings comes with an
  error.
\<close>

theorem no_partial_results:
  "(snd (snd (findRepos w term)) \<noteq> None \<longrightarrow> fst (snd (findRepos w term)) = None)
   \<and> (snd (snd (findUsers w term)) \<noteq> None \<longrightarrow> fst (snd (findUsers w term)) = None)"
proof
  show "snd (snd (findRepos w term)) \<noteq> None \<longrightarrow> fst (snd (findRepos w term)) = None"
    using findRepos_sent_cases [of w "term"]
    by (auto simp: findRepos_after split: sum.splits if_splits)
  show "snd (snd (findUsers w term)) \<noteq> None \<longrightarrow> fst (snd (findUsers w term)) = None"
    using findUsers_sent_cases [of w "term"]
    by (auto simp: findUsers_after split: sum.splits if_splits)
qed

theorem no_partial_results_witness:
  "snd (snd (findRepos unreachable ''golang'')) \<noteq> None
   \<and> fst (snd (findRepos unreachable ''golang'')) = None
   \<and> snd (snd (findUsers unreachable ''torvalds'')) \<noteq> None
   \<and> fst (snd (findUsers unreachable ''torvalds'')) = None"
proof -
  have r: "snd (snd (findRepos unreachable ''golang'')) \<noteq> None"
    using findRepos_plain_sent [of unreachable "''golang''"]
    by (simp add: findRepos_after unreachable_def)
  have u: "snd (snd (findUsers unreachable ''torvalds'')) \<noteq> None"
    using findUsers_plain_sent [of unreachable "''torvalds''"]
    by (simp add: findUsers_after unreachable_def)
  from no_partial_results [of unreachable "''golang''"]
       no_partial_results [of unreachable "''torvalds''"] r u
  show ?thesis by simp
qed

text \<open>
  Claim C10. When the subcommand \<open>search-users\<close> gets no positional argument, it
  returns the error with the message
  \<open>provide a search term for searching repos: search-repos <search_term>\<close>, which
  names the subcommand of repositories: it is what \<open>search-repos\<close> returns there.
\<close>

theorem missing_term_error_names_repos:
  assumes "flagSet_Parse args = Return []"
  shows "snd (executeSearchUsers w args)
           = Return (Some (errors_New
               ''provide a search term for searching repos: search-repos <search_term>''))
       \<and> executeSearchUsers w args = executeSearchRepos w args
       \<and> snd (executeCommand w ''search-users'' args) = snd (executeSearchUsers w args)"
  using assms
  by (simp add: executeSearchUsers_def executeSearchRepos_def executeCommand_def Let_def
      split: prod.splits)

theorem missing_term_error_names_repos_witness:
  "snd (executeSearchUsers unreachable [])
     = Return (Some (errors_New
               ''provide a search term for searching repos: search-repos <search_term>''))
   \<and> snd (executeCommand unreachable ''search-users'' [''--''])
     = Return (Some (errors_New
               ''provide a search term for searching repos: search-repos <search_term>''))
   \<and> snd (executeSearchRepos unreachable [''--''])
     = Return (Some (errors_New
               ''provide a search term for searching repos: search-repos <search_term>''))"
proof -
  have 1: "flagSet_Parse [] = Return []" and 2: "flagSet_Parse [''--''] = Return []"
    by (simp_all add: flagSet_Parse_def)
  from missing_term_error_names_repos [OF 1, of unreachable]
       missing_term_error_names_repos [OF 2, of unreachable]
  show ?thesis by metis
qed

end
